theory Spec2Isabelle
  imports Main "HOL-Library.Word"
begin

section \<open>Bytes, big integers and hashes\<close>

text \<open>
  The fee config manager of \<^verbatim>\<open>precompile/fee_config_manager.go\<close> works on byte slices,
  32-byte hashes (\<^verbatim>\<open>common.Hash\<close>), arbitrary-precision integers (\<^verbatim>\<open>*big.Int\<close>) and one
  \<^verbatim>\<open>uint64\<close>. A byte is an 8-bit word, a byte slice a list of bytes, a hash a list of
  bytes that always has \<open>HashLength\<close> elements, a \<^verbatim>\<open>big.Int\<close> value an \<open>int\<close>, and a
  \<^verbatim>\<open>*big.Int\<close> an \<open>int option\<close> in which \<open>None\<close> is the nil pointer.
\<close>

type_synonym byte = "8 word"
type_synonym Hash = "byte list"
type_synonym address = "160 word"

definition HashLength :: nat where
  "HashLength = 32"

text \<open>
  \<^verbatim>\<open>big.Int.SetBytes\<close> reads a byte slice as a big-endian unsigned integer;
  \<^verbatim>\<open>big.Int.Bytes\<close> returns the big-endian bytes of the absolute value, without leading
  zero bytes. Both are first given on natural numbers.
\<close>

fun bytes_to_nat :: "byte list \<Rightarrow> nat" where
  "bytes_to_nat [] = 0"
| "bytes_to_nat (b # bs) = unat b * 256 ^ length bs + bytes_to_nat bs"

function nat_to_bytes :: "nat \<Rightarrow> byte list" where
  "nat_to_bytes n = (if n = 0 then [] else nat_to_bytes (n div 256) @ [of_nat (n mod 256)])"
  by pat_completeness auto
termination
  by (relation "measure (\<lambda>n. n)") auto

declare nat_to_bytes.simps [simp del]

definition SetBytes :: "byte list \<Rightarrow> int" where
  "SetBytes buf = int (bytes_to_nat buf)"

definition Bytes :: "int \<Rightarrow> byte list" where
  "Bytes x = nat_to_bytes (nat \<bar>x\<bar>)"

text \<open>
  \<^verbatim>\<open>big.Int.Uint64\<close> keeps the low 64 bits of the absolute value;
  \<^verbatim>\<open>big.Int.SetUint64\<close> is the value of the machine word.
\<close>

definition Uint64 :: "int \<Rightarrow> 64 word" where
  "Uint64 x = word_of_nat (nat \<bar>x\<bar>)"

definition SetUint64 :: "64 word \<Rightarrow> int" where
  "SetUint64 w = uint w"

text \<open>
  \<^verbatim>\<open>common.BytesToHash\<close>: a slice longer than the hash is cropped from the left, a shorter
  one is right-aligned and padded with zero bytes on the left.
\<close>

definition BytesToHash :: "byte list \<Rightarrow> Hash" where
  "BytesToHash b =
     (let b' = (if length b > HashLength then drop (length b - HashLength) b else b)
      in replicate (HashLength - length b') 0 @ b')"

text \<open>\<^verbatim>\<open>Hash.Big\<close> reads the 32 bytes as a big-endian unsigned integer.\<close>

definition Big :: "Hash \<Rightarrow> int" where
  "Big h = SetBytes h"


section \<open>Errors and panics\<close>

text \<open>
  A Go function returning \<^verbatim>\<open>(T, error)\<close> is modelled as returning a pair of the value and
  an \<open>error option\<close>, \<open>None\<close> being the nil error. A Go panic does not return at all: a
  function that can panic has an \<open>outcome\<close>, either \<open>Returns\<close> with what the function
  returned or \<open>Panics\<close>, and a caller propagates the panic of a callee.
\<close>

datatype error =
    ErrOutOfGas
  | ErrWriteProtection
  | ErrInvalidInputLength nat
  | ErrCannotChangeFee address
  | ErrBlockNumberNil
  | ErrInvalidFeeConfig string

datatype panic =
    NilPointerDereference
  | UnknownFeeConfigKey nat

datatype 'a outcome = Returns 'a | Panics panic

text \<open>
  \<^verbatim>\<open>common.BigToHash(b)\<close> is \<^verbatim>\<open>BytesToHash(b.Bytes())\<close>. \<open>BigToHash\<close> is the function on
  the integer value; \<open>BigToHash_ptr\<close> is the call on a \<^verbatim>\<open>*big.Int\<close> field, which dereferences
  the pointer.
\<close>

definition BigToHash :: "int \<Rightarrow> Hash" where
  "BigToHash b = BytesToHash (Bytes b)"

fun BigToHash_ptr :: "int option \<Rightarrow> Hash outcome" where
  "BigToHash_ptr None = Panics NilPointerDereference"
| "BigToHash_ptr (Some b) = Returns (BigToHash b)"

text \<open>The composite literal \<^verbatim>\<open>common.Hash{b}\<close>: first byte \<open>b\<close>, the other bytes zero.\<close>

definition Hash_of_byte :: "byte \<Rightarrow> Hash" where
  "Hash_of_byte b = b # replicate (HashLength - 1) 0"

section \<open>The fee config record and the constants of the manager\<close>

text \<open>
  \<^verbatim>\<open>commontype.FeeConfig\<close>: seven \<^verbatim>\<open>*big.Int\<close> fields and the \<^verbatim>\<open>uint64\<close> field
  \<^verbatim>\<open>TargetBlockRate\<close>, in the order in which the manager packs them.
\<close>

record FeeConfig =
  GasLimit :: "int option"
  TargetBlockRate :: "64 word"
  MinBaseFee :: "int option"
  TargetGas :: "int option"
  BaseFeeChangeDenominator :: "int option"
  MinBlockGasCost :: "int option"
  MaxBlockGasCost :: "int option"
  BlockGasCostStep :: "int option"

text \<open>The zero value \<^verbatim>\<open>commontype.FeeConfig{}\<close>: nil pointers and a zero rate.\<close>

definition FeeConfig_zero :: FeeConfig where
  "FeeConfig_zero =
     \<lparr>GasLimit = None, TargetBlockRate = 0, MinBaseFee = None, TargetGas = None,
      BaseFeeChangeDenominator = None, MinBlockGasCost = None, MaxBlockGasCost = None,
      BlockGasCostStep = None\<rparr>"

text \<open>The \<^verbatim>\<open>iota\<close> block of constants, lines 17 to 38.\<close>

definition minFeeConfigFieldKey :: nat where "minFeeConfigFieldKey = 0 + 1"
definition gasLimitKey :: nat where "gasLimitKey = 1"
definition targetBlockRateKey :: nat where "targetBlockRateKey = 2"
definition minBaseFeeKey :: nat where "minBaseFeeKey = 3"
definition targetGasKey :: nat where "targetGasKey = 4"
definition baseFeeChangeDenominatorKey :: nat where "baseFeeChangeDenominatorKey = 5"
definition minBlockGasCostKey :: nat where "minBlockGasCostKey = 6"
definition maxBlockGasCostKey :: nat where "maxBlockGasCostKey = 7"
definition blockGasCostStepKey :: nat where "blockGasCostStepKey = 8"
definition numFeeConfigField :: nat where "numFeeConfigField = 9 - 1"

definition feeConfigInputLen :: nat where
  "feeConfigInputLen = HashLength * numFeeConfigField"

text \<open>\<^verbatim>\<open>common.Hash{'l', 'c', 'a'}\<close>.\<close>

definition feeConfigLastChangedAtKey :: Hash where
  "feeConfigLastChangedAtKey = [0x6c, 0x63, 0x61] @ replicate (HashLength - 3) 0"

section \<open>The host: state, block context, roles\<close>

text \<open>
  Modelled from the spec: the \<^verbatim>\<open>StateDB\<close> interface, declared outside the file of the
  manager. The spec gives it as a synchronous key/value map with
  \<^verbatim>\<open>GetState/SetState(address, slotKey)\<close> on 256-bit words.
\<close>

type_synonym StateDB = "address \<Rightarrow> Hash \<Rightarrow> Hash"

definition GetState :: "StateDB \<Rightarrow> address \<Rightarrow> Hash \<Rightarrow> Hash" where
  "GetState stateDB a key = stateDB a key"

definition SetState :: "StateDB \<Rightarrow> address \<Rightarrow> Hash \<Rightarrow> Hash \<Rightarrow> StateDB" where
  "SetState stateDB a key v = stateDB (a := (stateDB a) (key := v))"

text \<open>
  Modelled from the spec: the \<^verbatim>\<open>BlockContext\<close> interface; \<^verbatim>\<open>Number()\<close> is an integer or
  absent (a nil \<^verbatim>\<open>*big.Int\<close>).
\<close>

record BlockContext =
  Number :: "int option"

text \<open>
  \<^verbatim>\<open>PrecompileAccessibleState\<close> as the handlers use it: \<^verbatim>\<open>GetStateDB()\<close> and
  \<^verbatim>\<open>GetBlockContext()\<close>.
\<close>

record PrecompileAccessibleState =
  GetStateDB :: StateDB
  GetBlockContext :: BlockContext

text \<open>
  Modelled from the spec: the role type \<^verbatim>\<open>AllowListRole\<close> and its method \<^verbatim>\<open>IsEnabled\<close>,
  declared in the allow list's file. The spec has the roles None, Enabled and Admin, and
  \<^verbatim>\<open>IsEnabled\<close> true for Enabled or Admin.
\<close>

datatype AllowListRole = AllowListNoRole | AllowListEnabled | AllowListAdmin

fun IsEnabled :: "AllowListRole \<Rightarrow> bool" where
  "IsEnabled AllowListAdmin = True"
| "IsEnabled AllowListEnabled = True"
| "IsEnabled AllowListNoRole = False"

text \<open>
  What the manager uses and its file does not declare is a parameter of the model:
  the two per-slot gas costs, the address of the manager, the selector of
  \<^verbatim>\<open>setFeeConfig\<close>, the role lookup \<^verbatim>\<open>getAllowListStatus\<close> (in the spec a pure read of the
  role of an address for a contract) and the validation \<^verbatim>\<open>FeeConfig.Verify\<close> (in the spec
  a policy supplied from outside).
\<close>

record externals =
  writeGasCostPerSlot :: nat
  readGasCostPerSlot :: nat
  FeeConfigManagerAddress :: address
  setFeeConfigSignature :: "byte list"
  getAllowListStatus :: "StateDB \<Rightarrow> address \<Rightarrow> address \<Rightarrow> AllowListRole"
  Verify :: "FeeConfig \<Rightarrow> error option"

definition SetFeeConfigGasCost :: "externals \<Rightarrow> nat" where
  "SetFeeConfigGasCost x = writeGasCostPerSlot x * (numFeeConfigField + 1)"

definition GetFeeConfigGasCost :: "externals \<Rightarrow> nat" where
  "GetFeeConfigGasCost x = readGasCostPerSlot x * numFeeConfigField"

definition GetLastChangedAtGasCost :: "externals \<Rightarrow> nat" where
  "GetLastChangedAtGasCost x = readGasCostPerSlot x"

section \<open>Helpers of the precompile package\<close>

text \<open>
  Modelled from the spec: \<^verbatim>\<open>deductGas\<close>, declared outside the file of the manager. The
  supplied gas is compared with the fixed cost; insufficient gas fails with the
  out-of-gas error and zero remaining gas, otherwise the remaining gas is the supplied
  gas minus the cost. Gas is a \<^verbatim>\<open>uint64\<close>; the only arithmetic on it is this guarded
  subtraction, so it is a natural number here.
\<close>

definition deductGas :: "nat \<Rightarrow> nat \<Rightarrow> nat \<times> error option" where
  "deductGas suppliedGas requiredGas =
     (if suppliedGas < requiredGas then (0, Some ErrOutOfGas)
      else (suppliedGas - requiredGas, None))"

text \<open>
  Modelled from the spec: \<^verbatim>\<open>returnPackedHash\<close>, declared outside the file of the manager:
  the 32-byte word of the input at the given index.
\<close>

definition returnPackedHash :: "byte list \<Rightarrow> nat \<Rightarrow> byte list" where
  "returnPackedHash packed index = take HashLength (drop (HashLength * index) packed)"

text \<open>
  Modelled from the spec: \<^verbatim>\<open>packOrderedHashes\<close> and \<^verbatim>\<open>packOrderedHashesWithSelector\<close>,
  declared outside the file of the manager. Packing is one word per field, in the fixed
  order, with no padding and no length prefix; a call is the 4-byte selector followed by
  the data. The result is the content of the destination buffer after the call and the
  returned error.
\<close>

definition packOrderedHashes :: "byte list \<Rightarrow> Hash list \<Rightarrow> byte list \<times> error option" where
  "packOrderedHashes dst hashes = (concat hashes, None)"

definition packOrderedHashesWithSelector ::
    "byte list \<Rightarrow> byte list \<Rightarrow> Hash list \<Rightarrow> byte list \<times> error option" where
  "packOrderedHashesWithSelector dst functionSelector hashes =
     (functionSelector @ concat hashes, None)"

section \<open>Packing and unpacking\<close>

text \<open>
  The elements of the slice literal of \<^verbatim>\<open>packFeeConfigHelper\<close> are evaluated from left
  to right; the first nil field panics.
\<close>

fun collect :: "'a outcome list \<Rightarrow> 'a list outcome" where
  "collect [] = Returns []"
| "collect (Panics p # os) = Panics p"
| "collect (Returns v # os) =
     (case collect os of Panics p \<Rightarrow> Panics p | Returns vs \<Rightarrow> Returns (v # vs))"

definition packFeeConfigHelper ::
    "externals \<Rightarrow> FeeConfig \<Rightarrow> bool \<Rightarrow> (byte list \<times> error option) outcome" where
  "packFeeConfigHelper x feeConfig useSelector =
     (case collect
        [BigToHash_ptr (GasLimit feeConfig),
         Returns (BigToHash (SetUint64 (TargetBlockRate feeConfig))),
         BigToHash_ptr (MinBaseFee feeConfig),
         BigToHash_ptr (TargetGas feeConfig),
         BigToHash_ptr (BaseFeeChangeDenominator feeConfig),
         BigToHash_ptr (MinBlockGasCost feeConfig),
         BigToHash_ptr (MaxBlockGasCost feeConfig),
         BigToHash_ptr (BlockGasCostStep feeConfig)] of
        Panics p \<Rightarrow> Panics p
      | Returns hashes \<Rightarrow>
          if useSelector
          then Returns (packOrderedHashesWithSelector
                 (replicate (length (setFeeConfigSignature x) + feeConfigInputLen) 0)
                 (setFeeConfigSignature x) hashes)
          else Returns (packOrderedHashes (replicate (length hashes * HashLength) 0) hashes))"

definition PackFeeConfig :: "externals \<Rightarrow> FeeConfig \<Rightarrow> (byte list \<times> error option) outcome" where
  "PackFeeConfig x feeConfig = packFeeConfigHelper x feeConfig False"

definition PackSetFeeConfig :: "externals \<Rightarrow> FeeConfig \<Rightarrow> (byte list \<times> error option) outcome" where
  "PackSetFeeConfig x feeConfig = packFeeConfigHelper x feeConfig True"

text \<open>The \<^verbatim>\<open>switch\<close> of \<^verbatim>\<open>UnpackFeeConfigInput\<close> and the loop around it.\<close>

definition UnpackFeeConfigInput_switch ::
    "nat \<Rightarrow> byte list \<Rightarrow> FeeConfig \<Rightarrow> FeeConfig outcome" where
  "UnpackFeeConfigInput_switch i packedElement feeConfig =
     (if i = gasLimitKey then
        Returns (feeConfig\<lparr>GasLimit := Some (SetBytes packedElement)\<rparr>)
      else if i = targetBlockRateKey then
        Returns (feeConfig\<lparr>TargetBlockRate := Uint64 (SetBytes packedElement)\<rparr>)
      else if i = minBaseFeeKey then
        Returns (feeConfig\<lparr>MinBaseFee := Some (SetBytes packedElement)\<rparr>)
      else if i = targetGasKey then
        Returns (feeConfig\<lparr>TargetGas := Some (SetBytes packedElement)\<rparr>)
      else if i = baseFeeChangeDenominatorKey then
        Returns (feeConfig\<lparr>BaseFeeChangeDenominator := Some (SetBytes packedElement)\<rparr>)
      else if i = minBlockGasCostKey then
        Returns (feeConfig\<lparr>MinBlockGasCost := Some (SetBytes packedElement)\<rparr>)
      else if i = maxBlockGasCostKey then
        Returns (feeConfig\<lparr>MaxBlockGasCost := Some (SetBytes packedElement)\<rparr>)
      else if i = blockGasCostStepKey then
        Returns (feeConfig\<lparr>BlockGasCostStep := Some (SetBytes packedElement)\<rparr>)
      else Panics (UnknownFeeConfigKey i))"

function UnpackFeeConfigInput_loop :: "nat \<Rightarrow> byte list \<Rightarrow> FeeConfig \<Rightarrow> FeeConfig outcome" where
  "UnpackFeeConfigInput_loop i input feeConfig =
     (if i \<le> numFeeConfigField then
        (let listIndex = i - 1;
             packedElement = returnPackedHash input listIndex
         in case UnpackFeeConfigInput_switch i packedElement feeConfig of
              Panics p \<Rightarrow> Panics p
            | Returns feeConfig' \<Rightarrow> UnpackFeeConfigInput_loop (i + 1) input feeConfig')
      else Returns feeConfig)"
  by pat_completeness auto
termination
  by (relation "measure (\<lambda>(i, input, feeConfig). numFeeConfigField + 1 - i)") auto

declare UnpackFeeConfigInput_loop.simps [simp del]

definition UnpackFeeConfigInput :: "byte list \<Rightarrow> (FeeConfig \<times> error option) outcome" where
  "UnpackFeeConfigInput input =
     (if length input \<noteq> feeConfigInputLen then
        Returns (FeeConfig_zero, Some (ErrInvalidInputLength (length input)))
      else
        (case UnpackFeeConfigInput_loop minFeeConfigFieldKey input FeeConfig_zero of
           Panics p \<Rightarrow> Panics p
         | Returns feeConfig \<Rightarrow> Returns (feeConfig, None)))"

section \<open>Reading and writing the stored fee config\<close>

definition GetStoredFeeConfig_switch :: "nat \<Rightarrow> Hash \<Rightarrow> FeeConfig \<Rightarrow> FeeConfig outcome" where
  "GetStoredFeeConfig_switch i val feeConfig =
     (if i = gasLimitKey then
        Returns (feeConfig\<lparr>GasLimit := Some (Big val)\<rparr>)
      else if i = targetBlockRateKey then
        Returns (feeConfig\<lparr>TargetBlockRate := Uint64 (Big val)\<rparr>)
      else if i = minBaseFeeKey then
        Returns (feeConfig\<lparr>MinBaseFee := Some (Big val)\<rparr>)
      else if i = targetGasKey then
        Returns (feeConfig\<lparr>TargetGas := Some (Big val)\<rparr>)
      else if i = baseFeeChangeDenominatorKey then
        Returns (feeConfig\<lparr>BaseFeeChangeDenominator := Some (Big val)\<rparr>)
      else if i = minBlockGasCostKey then
        Returns (feeConfig\<lparr>MinBlockGasCost := Some (Big val)\<rparr>)
      else if i = maxBlockGasCostKey then
        Returns (feeConfig\<lparr>MaxBlockGasCost := Some (Big val)\<rparr>)
      else if i = blockGasCostStepKey then
        Returns (feeConfig\<lparr>BlockGasCostStep := Some (Big val)\<rparr>)
      else Panics (UnknownFeeConfigKey i))"

function GetStoredFeeConfig_loop ::
    "externals \<Rightarrow> nat \<Rightarrow> StateDB \<Rightarrow> FeeConfig \<Rightarrow> FeeConfig outcome" where
  "GetStoredFeeConfig_loop x i stateDB feeConfig =
     (if i \<le> numFeeConfigField then
        (let val = GetState stateDB (FeeConfigManagerAddress x) (Hash_of_byte (of_nat i))
         in case GetStoredFeeConfig_switch i val feeConfig of
              Panics p \<Rightarrow> Panics p
            | Returns feeConfig' \<Rightarrow> GetStoredFeeConfig_loop x (i + 1) stateDB feeConfig')
      else Returns feeConfig)"
  by pat_completeness auto
termination
  by (relation "measure (\<lambda>(x, i, stateDB, feeConfig). numFeeConfigField + 1 - i)") auto

declare GetStoredFeeConfig_loop.simps [simp del]

definition GetStoredFeeConfig :: "externals \<Rightarrow> StateDB \<Rightarrow> FeeConfig outcome" where
  "GetStoredFeeConfig x stateDB =
     GetStoredFeeConfig_loop x minFeeConfigFieldKey stateDB FeeConfig_zero"

definition GetFeeConfigLastChangedAt :: "externals \<Rightarrow> StateDB \<Rightarrow> int" where
  "GetFeeConfigLastChangedAt x stateDB =
     (let val = GetState stateDB (FeeConfigManagerAddress x) feeConfigLastChangedAtKey
      in Big val)"

definition StoreFeeConfig_switch :: "nat \<Rightarrow> FeeConfig \<Rightarrow> Hash outcome" where
  "StoreFeeConfig_switch i feeConfig =
     (if i = gasLimitKey then BigToHash_ptr (GasLimit feeConfig)
      else if i = targetBlockRateKey then
        Returns (BigToHash (SetUint64 (TargetBlockRate feeConfig)))
      else if i = minBaseFeeKey then BigToHash_ptr (MinBaseFee feeConfig)
      else if i = targetGasKey then BigToHash_ptr (TargetGas feeConfig)
      else if i = baseFeeChangeDenominatorKey then
        BigToHash_ptr (BaseFeeChangeDenominator feeConfig)
      else if i = minBlockGasCostKey then BigToHash_ptr (MinBlockGasCost feeConfig)
      else if i = maxBlockGasCostKey then BigToHash_ptr (MaxBlockGasCost feeConfig)
      else if i = blockGasCostStepKey then BigToHash_ptr (BlockGasCostStep feeConfig)
      else Panics (UnknownFeeConfigKey i))"

function StoreFeeConfig_loop ::
    "externals \<Rightarrow> nat \<Rightarrow> FeeConfig \<Rightarrow> StateDB \<Rightarrow> StateDB outcome" where
  "StoreFeeConfig_loop x i feeConfig stateDB =
     (if i \<le> numFeeConfigField then
        (case StoreFeeConfig_switch i feeConfig of
           Panics p \<Rightarrow> Panics p
         | Returns input \<Rightarrow>
             StoreFeeConfig_loop x (i + 1) feeConfig
               (SetState stateDB (FeeConfigManagerAddress x) (Hash_of_byte (of_nat i)) input))
      else Returns stateDB)"
  by pat_completeness auto
termination
  by (relation "measure (\<lambda>(x, i, feeConfig, stateDB). numFeeConfigField + 1 - i)") auto

declare StoreFeeConfig_loop.simps [simp del]

text \<open>
  \<^verbatim>\<open>StoreFeeConfig\<close> returns an error and mutates the state it is given: the model returns
  the error and the state after the call.
\<close>

definition StoreFeeConfig ::
    "externals \<Rightarrow> StateDB \<Rightarrow> FeeConfig \<Rightarrow> BlockContext \<Rightarrow> (error option \<times> StateDB) outcome" where
  "StoreFeeConfig x stateDB feeConfig blockContext =
     (case Verify x feeConfig of
        Some err \<Rightarrow> Returns (Some err, stateDB)
      | None \<Rightarrow>
          (case StoreFeeConfig_loop x minFeeConfigFieldKey feeConfig stateDB of
             Panics p \<Rightarrow> Panics p
           | Returns stateDB' \<Rightarrow>
               (case Number blockContext of
                  None \<Rightarrow> Returns (Some ErrBlockNumberNil, stateDB')
                | Some blockNumber \<Rightarrow>
                    Returns (None,
                      SetState stateDB' (FeeConfigManagerAddress x) feeConfigLastChangedAtKey
                        (BigToHash blockNumber)))))"

section \<open>The three handlers\<close>

text \<open>
  A handler returns \<^verbatim>\<open>(ret, remainingGas, err)\<close>; \<open>ret\<close> is \<open>None\<close> for a nil slice.
  The model pairs the triple with the state after the call.
\<close>

type_synonym handler_result = "byte list option \<times> nat \<times> error option"

definition setFeeConfig ::
    "externals \<Rightarrow> PrecompileAccessibleState \<Rightarrow> address \<Rightarrow> address \<Rightarrow> byte list \<Rightarrow> nat \<Rightarrow> bool
      \<Rightarrow> (handler_result \<times> StateDB) outcome" where
  "setFeeConfig x accessibleState caller addr input suppliedGas readOnly =
     (case deductGas suppliedGas (SetFeeConfigGasCost x) of
        (remainingGas, Some err) \<Rightarrow> Returns ((None, 0, Some err), GetStateDB accessibleState)
      | (remainingGas, None) \<Rightarrow>
          if readOnly then
            Returns ((None, remainingGas, Some ErrWriteProtection), GetStateDB accessibleState)
          else
            (case UnpackFeeConfigInput input of
               Panics p \<Rightarrow> Panics p
             | Returns (feeConfig, Some err) \<Rightarrow>
                 Returns ((None, remainingGas, Some err), GetStateDB accessibleState)
             | Returns (feeConfig, None) \<Rightarrow>
                 (let stateDB = GetStateDB accessibleState;
                      callerStatus = getAllowListStatus x stateDB (FeeConfigManagerAddress x) caller
                  in if \<not> IsEnabled callerStatus then
                       Returns ((None, remainingGas, Some (ErrCannotChangeFee caller)), stateDB)
                     else
                       (case StoreFeeConfig x stateDB feeConfig (GetBlockContext accessibleState) of
                          Panics p \<Rightarrow> Panics p
                        | Returns (Some err, stateDB') \<Rightarrow>
                            Returns ((None, remainingGas, Some err), stateDB')
                        | Returns (None, stateDB') \<Rightarrow>
                            Returns ((Some [], remainingGas, None), stateDB')))))"

definition getFeeConfig ::
    "externals \<Rightarrow> PrecompileAccessibleState \<Rightarrow> address \<Rightarrow> address \<Rightarrow> byte list \<Rightarrow> nat \<Rightarrow> bool
      \<Rightarrow> (handler_result \<times> StateDB) outcome" where
  "getFeeConfig x accessibleState caller addr input suppliedGas readOnly =
     (case deductGas suppliedGas (GetFeeConfigGasCost x) of
        (remainingGas, Some err) \<Rightarrow> Returns ((None, 0, Some err), GetStateDB accessibleState)
      | (remainingGas, None) \<Rightarrow>
          (case GetStoredFeeConfig x (GetStateDB accessibleState) of
             Panics p \<Rightarrow> Panics p
           | Returns feeConfig \<Rightarrow>
               (case PackFeeConfig x feeConfig of
                  Panics p \<Rightarrow> Panics p
                | Returns (output, Some err) \<Rightarrow>
                    Returns ((None, remainingGas, Some err), GetStateDB accessibleState)
                | Returns (output, None) \<Rightarrow>
                    Returns ((Some output, remainingGas, None), GetStateDB accessibleState))))"

definition getFeeConfigLastChangedAt ::
    "externals \<Rightarrow> PrecompileAccessibleState \<Rightarrow> address \<Rightarrow> address \<Rightarrow> byte list \<Rightarrow> nat \<Rightarrow> bool
      \<Rightarrow> (handler_result \<times> StateDB) outcome" where
  "getFeeConfigLastChangedAt x accessibleState caller addr input suppliedGas readOnly =
     (case deductGas suppliedGas (GetLastChangedAtGasCost x) of
        (remainingGas, Some err) \<Rightarrow> Returns ((None, 0, Some err), GetStateDB accessibleState)
      | (remainingGas, None) \<Rightarrow>
          (let lastChangedAt = GetFeeConfigLastChangedAt x (GetStateDB accessibleState)
           in Returns ((Some (BigToHash lastChangedAt), remainingGas, None),
                GetStateDB accessibleState)))"

section \<open>Predicates of the properties\<close>

text \<open>
  \<open>gas_accounted cost suppliedGas out\<close>: the handler returned, its remaining gas is at most
  the supplied gas, on success it is the supplied gas minus the cost, and below the cost
  the handler failed with the out-of-gas error and zero remaining gas.
  \<open>fits_word p\<close>: the pointer is not nil and its value is a 256-bit unsigned magnitude.
\<close>
definition gas_accounted :: "nat \<Rightarrow> nat \<Rightarrow> (handler_result \<times> StateDB) outcome \<Rightarrow> bool" where
  "gas_accounted cost suppliedGas out =
     (case out of
        Panics p \<Rightarrow> False
      | Returns ((ret, remainingGas, err), stateDB) \<Rightarrow>
          remainingGas \<le> suppliedGas \<and>
          (err = None \<longrightarrow> cost \<le> suppliedGas \<and> remainingGas = suppliedGas - cost) \<and>
          (suppliedGas < cost \<longrightarrow> remainingGas = 0 \<and> err = Some ErrOutOfGas))"

definition fits_word :: "int option \<Rightarrow> bool" where
  "fits_word p = (case p of None \<Rightarrow> False | Some v \<Rightarrow> 0 \<le> v \<and> v < 2 ^ 256)"

section \<open>A scenario\<close>

text \<open>
  Concrete data on which the theorems below are instantiated: the fee config and the
  block number of the scenario of the specification, an admin \<open>0xA\<close> and an enabled
  address \<open>0xB\<close>, a state in which every slot is the zero hash, and a validation that
  rejects a zero target block rate.
\<close>
definition scenario_config :: FeeConfig where
  "scenario_config =
     \<lparr>GasLimit = Some 8000000, TargetBlockRate = 2, MinBaseFee = Some 25000000000,
      TargetGas = Some 15000000, BaseFeeChangeDenominator = Some 36, MinBlockGasCost = Some 0,
      MaxBlockGasCost = Some 1000000, BlockGasCostStep = Some 200000\<rparr>"

definition scenario_input :: "byte list" where
  "scenario_input =
     concat [BigToHash 8000000, BigToHash 2, BigToHash 25000000000, BigToHash 15000000,
       BigToHash 36, BigToHash 0, BigToHash 1000000, BigToHash 200000]"

definition scenario_externals :: externals where
  "scenario_externals =
     \<lparr>writeGasCostPerSlot = 20000, readGasCostPerSlot = 5000,
      FeeConfigManagerAddress = 0x0200000000000000000000000000000000000003,
      setFeeConfigSignature = [0x8f, 0x10, 0xb5, 0x86],
      getAllowListStatus = (\<lambda>stateDB precompileAddr a.
         if a = 0xA then AllowListAdmin else if a = 0xB then AllowListEnabled
         else AllowListNoRole),
      Verify = (\<lambda>feeConfig.
         if TargetBlockRate feeConfig = 0
         then Some (ErrInvalidFeeConfig ''targetBlockRate cannot be 0'') else None)\<rparr>"

definition scenario_state :: StateDB where
  "scenario_state = (\<lambda>a key. replicate HashLength 0)"

definition scenario_accessibleState :: "int option \<Rightarrow> PrecompileAccessibleState" where
  "scenario_accessibleState blockNumber =
     \<lparr>GetStateDB = scenario_state, GetBlockContext = \<lparr>Number = blockNumber\<rparr>\<rparr>"

section \<open>Basic facts on the big-endian encoding\<close>

lemma bytes_to_nat_append:
  "bytes_to_nat (xs @ ys) = bytes_to_nat xs * 256 ^ length ys + bytes_to_nat ys"
  by (induction xs) (simp_all add: power_add algebra_simps)

lemma bytes_to_nat_replicate_zero [simp]:
  "bytes_to_nat (replicate k 0 @ xs) = bytes_to_nat xs"
  by (induction k) simp_all

lemma bytes_to_nat_less: "bytes_to_nat xs < 256 ^ length xs"
proof (induction xs)
  case Nil
  show ?case by simp
next
  case (Cons b bs)
  have "unat b < 256"
    using unsigned_less [of b] by simp
  then have "unat b + 1 \<le> 256" by simp
  then have "(unat b + 1) * 256 ^ length bs \<le> 256 * 256 ^ length bs"
    by (rule mult_le_mono1)
  then have "unat b * 256 ^ length bs + 256 ^ length bs \<le> 256 * 256 ^ length bs"
    by (simp add: algebra_simps)
  with Cons.IH have "unat b * 256 ^ length bs + bytes_to_nat bs < 256 * 256 ^ length bs"
    by linarith
  then show ?case by simp
qed

lemma bytes_to_nat_nat_to_bytes [simp]: "bytes_to_nat (nat_to_bytes n) = n"
proof (induction n rule: nat_to_bytes.induct)
  case (1 n)
  show ?case
  proof (cases "n = 0")
    case True
    then show ?thesis by (simp add: nat_to_bytes.simps)
  next
    case False
    have "unat (of_nat (n mod 256) :: byte) = n mod 256"
      by (simp add: unat_of_nat)
    with False "1.IH" show ?thesis
      by (subst nat_to_bytes.simps) (simp add: bytes_to_nat_append)
  qed
qed

lemma bytes_to_nat_drop:
  "bytes_to_nat (drop k xs) = bytes_to_nat xs mod 256 ^ (length xs - k)"
proof -
  have "bytes_to_nat xs = bytes_to_nat (take k xs @ drop k xs)" by simp
  also have "\<dots> = bytes_to_nat (take k xs) * 256 ^ length (drop k xs) + bytes_to_nat (drop k xs)"
    by (rule bytes_to_nat_append)
  finally have "bytes_to_nat xs mod 256 ^ (length xs - k) =
      bytes_to_nat (drop k xs) mod 256 ^ length (drop k xs)"
    by simp
  also have "\<dots> = bytes_to_nat (drop k xs)"
    by (rule mod_less) (rule bytes_to_nat_less)
  finally show ?thesis by simp
qed

lemma length_BytesToHash [simp]: "length (BytesToHash b) = HashLength"
  by (simp add: BytesToHash_def Let_def)

lemma bytes_to_nat_BytesToHash:
  "bytes_to_nat (BytesToHash b) = bytes_to_nat b mod 256 ^ HashLength"
proof (cases "length b > HashLength")
  case True
  then show ?thesis
    by (simp add: BytesToHash_def Let_def bytes_to_nat_drop)
next
  case False
  have "bytes_to_nat b < 256 ^ length b" by (rule bytes_to_nat_less)
  also have "\<dots> \<le> (256::nat) ^ HashLength"
    using False by (intro power_increasing) simp_all
  finally show ?thesis
    using False by (simp add: BytesToHash_def Let_def)
qed

lemma bytes_to_nat_inject:
  "length xs = length ys \<Longrightarrow> bytes_to_nat xs = bytes_to_nat ys \<Longrightarrow> xs = ys"
proof (induction xs ys rule: list_induct2)
  case Nil
  show ?case by simp
next
  case (Cons x xs y ys)
  let ?m = "(256::nat) ^ length ys"
  have lx: "bytes_to_nat xs < ?m"
    using bytes_to_nat_less [of xs] Cons.hyps by simp
  have ly: "bytes_to_nat ys < ?m"
    by (rule bytes_to_nat_less)
  from Cons.prems Cons.hyps
  have eq: "unat x * ?m + bytes_to_nat xs = unat y * ?m + bytes_to_nat ys"
    by simp
  have "(unat x * ?m + bytes_to_nat xs) div ?m = unat x"
    using lx by simp
  moreover have "(unat y * ?m + bytes_to_nat ys) div ?m = unat y"
    using ly by simp
  ultimately have "unat x = unat y"
    using eq by simp
  then have xy: "x = y" by (rule word_unat_eq_iff [THEN iffD2])
  with eq have "bytes_to_nat xs = bytes_to_nat ys" by simp
  with Cons.IH xy show ?case by simp
qed

lemma BytesToHash_nat_to_bytes:
  assumes "length h = HashLength"
  shows "BytesToHash (nat_to_bytes (bytes_to_nat h)) = h"
proof (rule bytes_to_nat_inject)
  show "length (BytesToHash (nat_to_bytes (bytes_to_nat h))) = length h"
    using assms by simp
  have "bytes_to_nat h < 256 ^ HashLength"
    using bytes_to_nat_less [of h] assms by simp
  then show "bytes_to_nat (BytesToHash (nat_to_bytes (bytes_to_nat h))) = bytes_to_nat h"
    by (simp add: bytes_to_nat_BytesToHash)
qed

lemmas key_defs = minFeeConfigFieldKey_def gasLimitKey_def targetBlockRateKey_def
  minBaseFeeKey_def targetGasKey_def baseFeeChangeDenominatorKey_def minBlockGasCostKey_def
  maxBlockGasCostKey_def blockGasCostStepKey_def numFeeConfigField_def

section \<open>Integers and hashes\<close>

lemma length_BigToHash [simp]: "length (BigToHash v) = HashLength"
  by (simp add: BigToHash_def)

lemma Big_BigToHash: "Big (BigToHash v) = \<bar>v\<bar> mod 2 ^ 256"
proof -
  have "int (nat \<bar>v\<bar> mod 256 ^ 32) = \<bar>v\<bar> mod 256 ^ 32"
    by (simp add: zmod_int)
  moreover have "(256::int) ^ 32 = 2 ^ 256" by simp
  ultimately show ?thesis
    by (simp add: Big_def SetBytes_def BigToHash_def Bytes_def bytes_to_nat_BytesToHash
        HashLength_def)
qed

lemma Big_BigToHash_id: "0 \<le> v \<Longrightarrow> v < 2 ^ 256 \<Longrightarrow> Big (BigToHash v) = v"
  by (simp add: Big_BigToHash)

lemma BigToHash_SetBytes: "length h = HashLength \<Longrightarrow> BigToHash (SetBytes h) = h"
  by (simp add: BigToHash_def SetBytes_def Bytes_def BytesToHash_nat_to_bytes)

lemma BigToHash_Big: "length h = HashLength \<Longrightarrow> BigToHash (Big h) = h"
  by (simp add: Big_def BigToHash_SetBytes)

lemma SetBytes_nonneg [simp]: "0 \<le> SetBytes h"
  by (simp add: SetBytes_def)

lemma SetBytes_less: "length h = HashLength \<Longrightarrow> SetBytes h < 2 ^ 256"
proof -
  assume "length h = HashLength"
  then have "bytes_to_nat h < 256 ^ 32"
    using bytes_to_nat_less [of h] by (simp add: HashLength_def)
  then have "int (bytes_to_nat h) < int (256 ^ 32)"
    by (simp only: of_nat_less_iff)
  then show ?thesis by (simp add: SetBytes_def)
qed

lemma Uint64_SetUint64 [simp]: "Uint64 (SetUint64 w) = w"
  by (simp add: Uint64_def SetUint64_def)

lemma SetUint64_Uint64: "0 \<le> v \<Longrightarrow> v < 2 ^ 64 \<Longrightarrow> SetUint64 (Uint64 v) = v"
  by (simp add: Uint64_def SetUint64_def uint_word_of_int take_bit_eq_mod)

lemma unat_Uint64_SetBytes: "unat (Uint64 (SetBytes h)) = bytes_to_nat h mod 2 ^ 64"
  by (simp add: Uint64_def SetBytes_def unat_of_nat)

lemma SetUint64_bounds: "0 \<le> SetUint64 w \<and> SetUint64 w < 2 ^ 256"
proof -
  have "uint w < 2 ^ 64" using uint_bounded [of w] by simp
  also have "(2::int) ^ 64 < 2 ^ 256" by simp
  finally show ?thesis by (simp add: SetUint64_def)
qed

section \<open>Slot keys\<close>

lemma Hash_of_byte_eq [simp]: "Hash_of_byte a = Hash_of_byte b \<longleftrightarrow> a = b"
  by (simp add: Hash_of_byte_def)

lemma Hash_of_byte_neq_lca [simp]:
  "Hash_of_byte b \<noteq> feeConfigLastChangedAtKey" "feeConfigLastChangedAtKey \<noteq> Hash_of_byte b"
proof -
  have "replicate (HashLength - 1) (0::byte) = 0 # replicate 30 0"
    using replicate_Suc [of 30 "0::byte"] by (simp add: HashLength_def)
  then show "Hash_of_byte b \<noteq> feeConfigLastChangedAtKey"
    by (simp add: Hash_of_byte_def feeConfigLastChangedAtKey_def)
  then show "feeConfigLastChangedAtKey \<noteq> Hash_of_byte b"
    by (rule not_sym)
qed

section \<open>Words of a packed input\<close>

lemma length_returnPackedHash:
  "HashLength * (k + 1) \<le> length input \<Longrightarrow> length (returnPackedHash input k) = HashLength"
  by (simp add: returnPackedHash_def)

lemma concat_words:
  assumes "length input = feeConfigInputLen"
  shows "concat [returnPackedHash input 0, returnPackedHash input 1, returnPackedHash input 2,
     returnPackedHash input 3, returnPackedHash input 4, returnPackedHash input 5,
     returnPackedHash input 6, returnPackedHash input 7] = input"
proof -
  have step: "take 32 (drop k xs) @ drop (k + 32) xs = drop k xs" for k and xs :: "byte list"
    by (metis add.commute append_take_drop_id drop_drop)
  have "drop 256 input = []"
    using assms by (simp add: feeConfigInputLen_def HashLength_def numFeeConfigField_def)
  then have "input = take 32 (drop 0 input) @ take 32 (drop 32 input) @ take 32 (drop 64 input) @
     take 32 (drop 96 input) @ take 32 (drop 128 input) @ take 32 (drop 160 input) @
     take 32 (drop 192 input) @ take 32 (drop 224 input) @ drop 256 input"
    using step [of 224 input] step [of 192 input] step [of 160 input] step [of 128 input]
      step [of 96 input] step [of 64 input] step [of 32 input] step [of 0 input]
    by simp
  then show ?thesis
    using \<open>drop 256 input = []\<close> by (simp add: returnPackedHash_def HashLength_def)
qed

lemma returnPackedHash_concat:
  assumes "length h0 = HashLength" "length h1 = HashLength" "length h2 = HashLength"
    "length h3 = HashLength" "length h4 = HashLength" "length h5 = HashLength"
    "length h6 = HashLength" "length h7 = HashLength"
  shows "returnPackedHash (concat [h0, h1, h2, h3, h4, h5, h6, h7]) 0 = h0"
    and "returnPackedHash (concat [h0, h1, h2, h3, h4, h5, h6, h7]) 1 = h1"
    and "returnPackedHash (concat [h0, h1, h2, h3, h4, h5, h6, h7]) 2 = h2"
    and "returnPackedHash (concat [h0, h1, h2, h3, h4, h5, h6, h7]) 3 = h3"
    and "returnPackedHash (concat [h0, h1, h2, h3, h4, h5, h6, h7]) 4 = h4"
    and "returnPackedHash (concat [h0, h1, h2, h3, h4, h5, h6, h7]) 5 = h5"
    and "returnPackedHash (concat [h0, h1, h2, h3, h4, h5, h6, h7]) 6 = h6"
    and "returnPackedHash (concat [h0, h1, h2, h3, h4, h5, h6, h7]) 7 = h7"
  using assms by (simp_all add: returnPackedHash_def)

section \<open>The loops, unrolled\<close>

lemma unpack_step:
  "UnpackFeeConfigInput_loop i input c =
     (if i \<le> 8 then
        (case UnpackFeeConfigInput_switch i (returnPackedHash input (i - 1)) c of
              Panics p \<Rightarrow> Panics p
            | Returns c' \<Rightarrow> UnpackFeeConfigInput_loop (i + 1) input c')
      else Returns c)"
  by (subst UnpackFeeConfigInput_loop.simps) (simp add: numFeeConfigField_def Let_def)

lemmas unpack_steps = unpack_step [of 1] unpack_step [of 2] unpack_step [of 3]
  unpack_step [of 4] unpack_step [of 5] unpack_step [of 6] unpack_step [of 7]
  unpack_step [of 8] unpack_step [of 9]

lemma unpack_loop:
  "UnpackFeeConfigInput_loop minFeeConfigFieldKey input FeeConfig_zero =
     Returns \<lparr>GasLimit = Some (SetBytes (returnPackedHash input 0)),
       TargetBlockRate = Uint64 (SetBytes (returnPackedHash input 1)),
       MinBaseFee = Some (SetBytes (returnPackedHash input 2)),
       TargetGas = Some (SetBytes (returnPackedHash input 3)),
       BaseFeeChangeDenominator = Some (SetBytes (returnPackedHash input 4)),
       MinBlockGasCost = Some (SetBytes (returnPackedHash input 5)),
       MaxBlockGasCost = Some (SetBytes (returnPackedHash input 6)),
       BlockGasCostStep = Some (SetBytes (returnPackedHash input 7))\<rparr>"
  apply (simp add: unpack_steps UnpackFeeConfigInput_switch_def key_defs FeeConfig_zero_def
      del: One_nat_def)
  apply simp
  done

lemma get_step:
  "GetStoredFeeConfig_loop x i stateDB c =
     (if i \<le> 8 then
        (case GetStoredFeeConfig_switch i
                (GetState stateDB (FeeConfigManagerAddress x) (Hash_of_byte (of_nat i))) c of
              Panics p \<Rightarrow> Panics p
            | Returns c' \<Rightarrow> GetStoredFeeConfig_loop x (i + 1) stateDB c')
      else Returns c)"
  by (subst GetStoredFeeConfig_loop.simps) (simp add: numFeeConfigField_def Let_def)

lemmas get_steps = get_step [of _ 1] get_step [of _ 2] get_step [of _ 3]
  get_step [of _ 4] get_step [of _ 5] get_step [of _ 6] get_step [of _ 7]
  get_step [of _ 8] get_step [of _ 9]

lemma get_loop:
  "GetStoredFeeConfig x stateDB =
     Returns \<lparr>GasLimit = Some (Big (stateDB (FeeConfigManagerAddress x) (Hash_of_byte 1))),
       TargetBlockRate = Uint64 (Big (stateDB (FeeConfigManagerAddress x) (Hash_of_byte 2))),
       MinBaseFee = Some (Big (stateDB (FeeConfigManagerAddress x) (Hash_of_byte 3))),
       TargetGas = Some (Big (stateDB (FeeConfigManagerAddress x) (Hash_of_byte 4))),
       BaseFeeChangeDenominator = Some (Big (stateDB (FeeConfigManagerAddress x) (Hash_of_byte 5))),
       MinBlockGasCost = Some (Big (stateDB (FeeConfigManagerAddress x) (Hash_of_byte 6))),
       MaxBlockGasCost = Some (Big (stateDB (FeeConfigManagerAddress x) (Hash_of_byte 7))),
       BlockGasCostStep = Some (Big (stateDB (FeeConfigManagerAddress x) (Hash_of_byte 8)))\<rparr>"
  by (simp add: GetStoredFeeConfig_def get_steps GetStoredFeeConfig_switch_def key_defs
      FeeConfig_zero_def GetState_def del: One_nat_def)

lemma store_step:
  "StoreFeeConfig_loop x i c stateDB =
     (if i \<le> 8 then
        (case StoreFeeConfig_switch i c of
           Panics p \<Rightarrow> Panics p
         | Returns input \<Rightarrow>
             StoreFeeConfig_loop x (i + 1) c
               (SetState stateDB (FeeConfigManagerAddress x) (Hash_of_byte (of_nat i)) input))
      else Returns stateDB)"
  by (subst StoreFeeConfig_loop.simps) (simp add: numFeeConfigField_def)

lemmas store_steps = store_step [of _ 1] store_step [of _ 2] store_step [of _ 3]
  store_step [of _ 4] store_step [of _ 5] store_step [of _ 6] store_step [of _ 7]
  store_step [of _ 8] store_step [of _ 9]

lemma store_loop:
  "StoreFeeConfig_loop x minFeeConfigFieldKey
     \<lparr>GasLimit = Some g, TargetBlockRate = t, MinBaseFee = Some b, TargetGas = Some tg,
      BaseFeeChangeDenominator = Some d, MinBlockGasCost = Some mn, MaxBlockGasCost = Some mx,
      BlockGasCostStep = Some s\<rparr> stateDB =
   Returns (stateDB (FeeConfigManagerAddress x := (stateDB (FeeConfigManagerAddress x))
     (Hash_of_byte 1 := BigToHash g, Hash_of_byte 2 := BigToHash (SetUint64 t),
      Hash_of_byte 3 := BigToHash b, Hash_of_byte 4 := BigToHash tg,
      Hash_of_byte 5 := BigToHash d, Hash_of_byte 6 := BigToHash mn,
      Hash_of_byte 7 := BigToHash mx, Hash_of_byte 8 := BigToHash s)))"
  by (simp add: store_steps StoreFeeConfig_switch_def key_defs SetState_def del: One_nat_def)

lemma pack_explicit:
  "PackFeeConfig x
     \<lparr>GasLimit = Some g, TargetBlockRate = t, MinBaseFee = Some b, TargetGas = Some tg,
      BaseFeeChangeDenominator = Some d, MinBlockGasCost = Some mn, MaxBlockGasCost = Some mx,
      BlockGasCostStep = Some s\<rparr> =
   Returns (concat [BigToHash g, BigToHash (SetUint64 t), BigToHash b, BigToHash tg,
     BigToHash d, BigToHash mn, BigToHash mx, BigToHash s], None)"
  by (simp add: PackFeeConfig_def packFeeConfigHelper_def packOrderedHashes_def)

lemma unpack_ok:
  "length input = feeConfigInputLen \<Longrightarrow>
   UnpackFeeConfigInput input =
     Returns (\<lparr>GasLimit = Some (SetBytes (returnPackedHash input 0)),
       TargetBlockRate = Uint64 (SetBytes (returnPackedHash input 1)),
       MinBaseFee = Some (SetBytes (returnPackedHash input 2)),
       TargetGas = Some (SetBytes (returnPackedHash input 3)),
       BaseFeeChangeDenominator = Some (SetBytes (returnPackedHash input 4)),
       MinBlockGasCost = Some (SetBytes (returnPackedHash input 5)),
       MaxBlockGasCost = Some (SetBytes (returnPackedHash input 6)),
       BlockGasCostStep = Some (SetBytes (returnPackedHash input 7))\<rparr>, None)"
  by (simp add: UnpackFeeConfigInput_def unpack_loop)

section \<open>Gas deduction\<close>

lemma deductGas_enough: "c \<le> g \<Longrightarrow> deductGas g c = (g - c, None)"
  by (simp add: deductGas_def)

lemma deductGas_short: "g < c \<Longrightarrow> deductGas g c = (0, Some ErrOutOfGas)"
  by (simp add: deductGas_def)

section \<open>The paths of StoreFeeConfig\<close>

lemma store_explicit:
  "StoreFeeConfig x stateDB
     \<lparr>GasLimit = Some g, TargetBlockRate = t, MinBaseFee = Some b, TargetGas = Some tg,
      BaseFeeChangeDenominator = Some d, MinBlockGasCost = Some mn, MaxBlockGasCost = Some mx,
      BlockGasCostStep = Some s\<rparr> blockContext =
   (case Verify x \<lparr>GasLimit = Some g, TargetBlockRate = t, MinBaseFee = Some b,
        TargetGas = Some tg, BaseFeeChangeDenominator = Some d, MinBlockGasCost = Some mn,
        MaxBlockGasCost = Some mx, BlockGasCostStep = Some s\<rparr> of
      Some err \<Rightarrow> Returns (Some err, stateDB)
    | None \<Rightarrow>
       (case Number blockContext of
          None \<Rightarrow> Returns (Some ErrBlockNumberNil,
            stateDB (FeeConfigManagerAddress x := (stateDB (FeeConfigManagerAddress x))
              (Hash_of_byte 1 := BigToHash g, Hash_of_byte 2 := BigToHash (SetUint64 t),
               Hash_of_byte 3 := BigToHash b, Hash_of_byte 4 := BigToHash tg,
               Hash_of_byte 5 := BigToHash d, Hash_of_byte 6 := BigToHash mn,
               Hash_of_byte 7 := BigToHash mx, Hash_of_byte 8 := BigToHash s)))
        | Some n \<Rightarrow> Returns (None,
            stateDB (FeeConfigManagerAddress x := (stateDB (FeeConfigManagerAddress x))
              (Hash_of_byte 1 := BigToHash g, Hash_of_byte 2 := BigToHash (SetUint64 t),
               Hash_of_byte 3 := BigToHash b, Hash_of_byte 4 := BigToHash tg,
               Hash_of_byte 5 := BigToHash d, Hash_of_byte 6 := BigToHash mn,
               Hash_of_byte 7 := BigToHash mx, Hash_of_byte 8 := BigToHash s,
               feeConfigLastChangedAtKey := BigToHash n)))))"
  by (simp add: StoreFeeConfig_def store_loop SetState_def split: option.split)

lemma unpack_bad:
  "length input \<noteq> feeConfigInputLen \<Longrightarrow>
   UnpackFeeConfigInput input = Returns (FeeConfig_zero, Some (ErrInvalidInputLength (length input)))"
  by (simp add: UnpackFeeConfigInput_def)

lemma setFeeConfig_returns:
  "\<exists>ret rem err st'.
     setFeeConfig x accessibleState caller addr input suppliedGas readOnly =
       Returns ((ret, rem, err), st') \<and>
     rem \<le> suppliedGas \<and>
     (err = None \<longrightarrow> SetFeeConfigGasCost x \<le> suppliedGas \<and>
        rem = suppliedGas - SetFeeConfigGasCost x) \<and>
     (suppliedGas < SetFeeConfigGasCost x \<longrightarrow> ret = None \<and> rem = 0 \<and> err = Some ErrOutOfGas)"
proof (cases "suppliedGas < SetFeeConfigGasCost x")
  case True
  then show ?thesis
    by (simp add: setFeeConfig_def deductGas_short)
next
  case enough: False
  then have dg: "deductGas suppliedGas (SetFeeConfigGasCost x) =
      (suppliedGas - SetFeeConfigGasCost x, None)"
    by (simp add: deductGas_enough)
  show ?thesis
  proof (cases "readOnly \<or> length input \<noteq> feeConfigInputLen")
    case True
    with enough dg show ?thesis
      by (auto simp add: setFeeConfig_def unpack_bad)
  next
    case False
    then have ok: "\<not> readOnly" "length input = feeConfigInputLen" by simp_all
    show ?thesis
      using enough
      by (simp add: setFeeConfig_def dg ok unpack_ok store_explicit Let_def
          split: option.split)
  qed
qed


lemma getFeeConfig_returns:
  "\<exists>output.
     getFeeConfig x accessibleState caller addr input suppliedGas readOnly =
       (if suppliedGas < GetFeeConfigGasCost x
        then Returns ((None, 0, Some ErrOutOfGas), GetStateDB accessibleState)
        else Returns ((Some output, suppliedGas - GetFeeConfigGasCost x, None),
               GetStateDB accessibleState))"
  by (simp add: getFeeConfig_def deductGas_def get_loop pack_explicit)

lemma getFeeConfigLastChangedAt_returns:
  "\<exists>output.
     getFeeConfigLastChangedAt x accessibleState caller addr input suppliedGas readOnly =
       (if suppliedGas < GetLastChangedAtGasCost x
        then Returns ((None, 0, Some ErrOutOfGas), GetStateDB accessibleState)
        else Returns ((Some output, suppliedGas - GetLastChangedAtGasCost x, None),
               GetStateDB accessibleState))"
  by (simp add: getFeeConfigLastChangedAt_def deductGas_def Let_def)

section \<open>Scenario data\<close>

lemma unpack_concat:
  assumes "length h0 = HashLength" "length h1 = HashLength" "length h2 = HashLength"
    "length h3 = HashLength" "length h4 = HashLength" "length h5 = HashLength"
    "length h6 = HashLength" "length h7 = HashLength"
  shows "UnpackFeeConfigInput (concat [h0, h1, h2, h3, h4, h5, h6, h7]) =
     Returns (\<lparr>GasLimit = Some (SetBytes h0), TargetBlockRate = Uint64 (SetBytes h1),
       MinBaseFee = Some (SetBytes h2), TargetGas = Some (SetBytes h3),
       BaseFeeChangeDenominator = Some (SetBytes h4), MinBlockGasCost = Some (SetBytes h5),
       MaxBlockGasCost = Some (SetBytes h6), BlockGasCostStep = Some (SetBytes h7)\<rparr>, None)"
proof -
  have len: "length (concat [h0, h1, h2, h3, h4, h5, h6, h7]) = feeConfigInputLen"
    using assms by (simp add: feeConfigInputLen_def numFeeConfigField_def)
  show ?thesis
    by (simp only: unpack_ok [OF len] returnPackedHash_concat [OF assms])
qed

lemma length_scenario_input: "length scenario_input = feeConfigInputLen"
  by (simp add: scenario_input_def feeConfigInputLen_def numFeeConfigField_def)

lemma unpack_scenario_input:
  "UnpackFeeConfigInput scenario_input = Returns (scenario_config, None)"
proof -
  have "UnpackFeeConfigInput scenario_input =
      Returns (\<lparr>GasLimit = Some (Big (BigToHash 8000000)),
        TargetBlockRate = Uint64 (Big (BigToHash 2)),
        MinBaseFee = Some (Big (BigToHash 25000000000)),
        TargetGas = Some (Big (BigToHash 15000000)),
        BaseFeeChangeDenominator = Some (Big (BigToHash 36)),
        MinBlockGasCost = Some (Big (BigToHash 0)),
        MaxBlockGasCost = Some (Big (BigToHash 1000000)),
        BlockGasCostStep = Some (Big (BigToHash 200000))\<rparr>, None)"
    unfolding scenario_input_def Big_def by (rule unpack_concat) simp_all
  then show ?thesis
    by (simp add: Big_BigToHash_id scenario_config_def Uint64_def)
qed

lemma scenario_rate: "SetBytes (returnPackedHash scenario_input 1) = 2"
proof -
  have "returnPackedHash scenario_input 1 = BigToHash 2"
    unfolding scenario_input_def by (rule returnPackedHash_concat) simp_all
  then have "SetBytes (returnPackedHash scenario_input 1) = Big (BigToHash 2)"
    by (simp add: Big_def)
  then show ?thesis by (simp add: Big_BigToHash_id)
qed

section \<open>Scenario facts\<close>

lemma scenario_cost [simp]: "SetFeeConfigGasCost scenario_externals = 180000"
  by (simp add: SetFeeConfigGasCost_def scenario_externals_def numFeeConfigField_def)

lemma scenario_roles [simp]:
  "getAllowListStatus scenario_externals s m 0xA = AllowListAdmin"
  "getAllowListStatus scenario_externals s m 0xB = AllowListEnabled"
  "getAllowListStatus scenario_externals s m 0xC = AllowListNoRole"
  by (simp_all add: scenario_externals_def)

lemma scenario_verify [simp]: "Verify scenario_externals scenario_config = None"
  by (simp add: scenario_externals_def scenario_config_def)

section \<open>Claims\<close>

text \<open>
  C8. Length guard: for every input whose length is not 8 * 32 = 256 bytes,
  \<^verbatim>\<open>UnpackFeeConfigInput\<close> returns an error, together with the zero-value record, whose
  pointer fields are all nil.
\<close>

theorem UnpackFeeConfigInput_length_guard:
  assumes "length input \<noteq> 8 * 32"
  shows "UnpackFeeConfigInput input =
     Returns (FeeConfig_zero, Some (ErrInvalidInputLength (length input)))"
  using assms
  by (simp add: UnpackFeeConfigInput_def feeConfigInputLen_def HashLength_def
      numFeeConfigField_def)

theorem UnpackFeeConfigInput_length_guard_witness:
  "length [0x01 :: byte] \<noteq> 8 * 32 \<and>
   UnpackFeeConfigInput [0x01] = Returns (FeeConfig_zero, Some (ErrInvalidInputLength 1))"
  using UnpackFeeConfigInput_length_guard [of "[0x01]"] by simp

text \<open>
  C6. Write protection: with \<open>readOnly\<close> set and enough gas, \<^verbatim>\<open>setFeeConfig\<close> returns the
  write-protection error, the remaining gas is the supplied gas minus the fixed cost, and
  the state is the state before the call.
\<close>

theorem setFeeConfig_write_protection:
  assumes "SetFeeConfigGasCost x \<le> suppliedGas"
  shows "setFeeConfig x accessibleState caller addr input suppliedGas True =
     Returns ((None, suppliedGas - SetFeeConfigGasCost x, Some ErrWriteProtection),
       GetStateDB accessibleState)"
  using assms by (simp add: setFeeConfig_def deductGas_enough)

theorem setFeeConfig_write_protection_witness:
  "SetFeeConfigGasCost scenario_externals \<le> 200000 \<and>
   setFeeConfig scenario_externals (scenario_accessibleState (Some 42)) 0xB 0xB scenario_input
       200000 True =
     Returns ((None, 20000, Some ErrWriteProtection), scenario_state)"
  using setFeeConfig_write_protection [where x = scenario_externals and suppliedGas = 200000
      and accessibleState = "scenario_accessibleState (Some 42)" and caller = "0xB"
      and addr = "0xB" and input = scenario_input]
  by (simp add: scenario_accessibleState_def)

text \<open>
  C10. The two getters write no slot: for every caller, input, supplied gas and
  \<open>readOnly\<close> flag each of them returns, and every slot of every contract holds after the
  call what it held before.
\<close>

theorem getters_write_nothing:
  "(\<exists>r st'. getFeeConfig x accessibleState caller addr input suppliedGas readOnly =
        Returns (r, st') \<and>
      (\<forall>a key. GetState st' a key = GetState (GetStateDB accessibleState) a key)) \<and>
   (\<exists>r st'. getFeeConfigLastChangedAt x accessibleState caller addr input suppliedGas readOnly =
        Returns (r, st') \<and>
      (\<forall>a key. GetState st' a key = GetState (GetStateDB accessibleState) a key))"
proof
  obtain packed where "getFeeConfig x accessibleState caller addr input suppliedGas readOnly =
       (if suppliedGas < GetFeeConfigGasCost x
        then Returns ((None, 0, Some ErrOutOfGas), GetStateDB accessibleState)
        else Returns ((Some packed, suppliedGas - GetFeeConfigGasCost x, None),
               GetStateDB accessibleState))"
    using getFeeConfig_returns by blast
  then show "\<exists>r st'. getFeeConfig x accessibleState caller addr input suppliedGas readOnly =
        Returns (r, st') \<and>
      (\<forall>a key. GetState st' a key = GetState (GetStateDB accessibleState) a key)"
    by simp
next
  obtain packed where
    "getFeeConfigLastChangedAt x accessibleState caller addr input suppliedGas readOnly =
       (if suppliedGas < GetLastChangedAtGasCost x
        then Returns ((None, 0, Some ErrOutOfGas), GetStateDB accessibleState)
        else Returns ((Some packed, suppliedGas - GetLastChangedAtGasCost x, None),
               GetStateDB accessibleState))"
    using getFeeConfigLastChangedAt_returns by blast
  then show "\<exists>r st'.
      getFeeConfigLastChangedAt x accessibleState caller addr input suppliedGas readOnly =
        Returns (r, st') \<and>
      (\<forall>a key. GetState st' a key = GetState (GetStateDB accessibleState) a key)"
    by simp
qed

text \<open>
  C7. Gas accounting: the costs are (8 + 1) write costs, 8 read costs and one read cost;
  each handler returns, its remaining gas is at most the supplied gas, on success it is
  the supplied gas minus the cost, and below the cost the handler fails with the
  out-of-gas error and zero remaining gas.
\<close>

theorem gas_accounting:
  "SetFeeConfigGasCost x = (8 + 1) * writeGasCostPerSlot x \<and>
   GetFeeConfigGasCost x = 8 * readGasCostPerSlot x \<and>
   GetLastChangedAtGasCost x = readGasCostPerSlot x \<and>
   gas_accounted (SetFeeConfigGasCost x) suppliedGas
     (setFeeConfig x accessibleState caller addr input suppliedGas readOnly) \<and>
   gas_accounted (GetFeeConfigGasCost x) suppliedGas
     (getFeeConfig x accessibleState caller addr input suppliedGas readOnly) \<and>
   gas_accounted (GetLastChangedAtGasCost x) suppliedGas
     (getFeeConfigLastChangedAt x accessibleState caller addr input suppliedGas readOnly)"
proof -
  have costs: "SetFeeConfigGasCost x = (8 + 1) * writeGasCostPerSlot x"
    "GetFeeConfigGasCost x = 8 * readGasCostPerSlot x"
    "GetLastChangedAtGasCost x = readGasCostPerSlot x"
    by (simp_all add: SetFeeConfigGasCost_def GetFeeConfigGasCost_def
        GetLastChangedAtGasCost_def numFeeConfigField_def)
  have s: "gas_accounted (SetFeeConfigGasCost x) suppliedGas
     (setFeeConfig x accessibleState caller addr input suppliedGas readOnly)"
    using setFeeConfig_returns [of x accessibleState caller addr input suppliedGas readOnly]
    by (auto simp add: gas_accounted_def)
  have g: "gas_accounted (GetFeeConfigGasCost x) suppliedGas
     (getFeeConfig x accessibleState caller addr input suppliedGas readOnly)"
    using getFeeConfig_returns [of x accessibleState caller addr input suppliedGas readOnly]
    by (auto simp add: gas_accounted_def)
  have l: "gas_accounted (GetLastChangedAtGasCost x) suppliedGas
     (getFeeConfigLastChangedAt x accessibleState caller addr input suppliedGas readOnly)"
    using getFeeConfigLastChangedAt_returns
      [of x accessibleState caller addr input suppliedGas readOnly]
    by (auto simp add: gas_accounted_def)
  from costs s g l show ?thesis by (intro conjI)
qed

theorem gas_accounting_witness:
  "179999 < SetFeeConfigGasCost scenario_externals \<and>
   gas_accounted (SetFeeConfigGasCost scenario_externals) 179999
     (setFeeConfig scenario_externals (scenario_accessibleState (Some 42)) 0xB 0xB
        scenario_input 179999 False) \<and>
   setFeeConfig scenario_externals (scenario_accessibleState (Some 42)) 0xB 0xB
        scenario_input 179999 False =
     Returns ((None, 0, Some ErrOutOfGas), scenario_state)"
  using gas_accounting [where x = scenario_externals and suppliedGas = 179999
      and accessibleState = "scenario_accessibleState (Some 42)" and caller = "0xB"
      and addr = "0xB" and input = scenario_input and readOnly = False]
  by (simp add: setFeeConfig_def deductGas_short scenario_accessibleState_def)

text \<open>
  C3. Round trip: for a record whose seven pointer fields are not nil and hold 256-bit
  unsigned magnitudes (the target block rate is a 64-bit word), \<^verbatim>\<open>PackFeeConfig\<close> returns
  bytes without an error, and \<^verbatim>\<open>UnpackFeeConfigInput\<close> on them returns the record again.
\<close>

theorem pack_unpack_roundtrip:
  assumes "fits_word (GasLimit r)" "fits_word (MinBaseFee r)" "fits_word (TargetGas r)"
    "fits_word (BaseFeeChangeDenominator r)" "fits_word (MinBlockGasCost r)"
    "fits_word (MaxBlockGasCost r)" "fits_word (BlockGasCostStep r)"
  shows "\<exists>packed. PackFeeConfig x r = Returns (packed, None) \<and>
     UnpackFeeConfigInput packed = Returns (r, None)"
proof -
  from assms obtain g b tg d mn mx s where
    f: "GasLimit r = Some g" "MinBaseFee r = Some b" "TargetGas r = Some tg"
       "BaseFeeChangeDenominator r = Some d" "MinBlockGasCost r = Some mn"
       "MaxBlockGasCost r = Some mx" "BlockGasCostStep r = Some s"
    and bounds: "0 \<le> g" "g < 2 ^ 256" "0 \<le> b" "b < 2 ^ 256" "0 \<le> tg" "tg < 2 ^ 256"
       "0 \<le> d" "d < 2 ^ 256" "0 \<le> mn" "mn < 2 ^ 256" "0 \<le> mx" "mx < 2 ^ 256"
       "0 \<le> s" "s < 2 ^ 256"
    by (auto simp add: fits_word_def split: option.splits)
  have r: "r = \<lparr>GasLimit = Some g, TargetBlockRate = TargetBlockRate r, MinBaseFee = Some b,
      TargetGas = Some tg, BaseFeeChangeDenominator = Some d, MinBlockGasCost = Some mn,
      MaxBlockGasCost = Some mx, BlockGasCostStep = Some s\<rparr>"
    using f by (cases r) simp
  let ?packed = "concat [BigToHash g, BigToHash (SetUint64 (TargetBlockRate r)), BigToHash b,
     BigToHash tg, BigToHash d, BigToHash mn, BigToHash mx, BigToHash s]"
  have p: "PackFeeConfig x r = Returns (?packed, None)"
    by (subst r) (rule pack_explicit)
  have "UnpackFeeConfigInput ?packed =
     Returns (\<lparr>GasLimit = Some (Big (BigToHash g)),
       TargetBlockRate = Uint64 (Big (BigToHash (SetUint64 (TargetBlockRate r)))),
       MinBaseFee = Some (Big (BigToHash b)), TargetGas = Some (Big (BigToHash tg)),
       BaseFeeChangeDenominator = Some (Big (BigToHash d)),
       MinBlockGasCost = Some (Big (BigToHash mn)),
       MaxBlockGasCost = Some (Big (BigToHash mx)),
       BlockGasCostStep = Some (Big (BigToHash s))\<rparr>, None)"
    unfolding Big_def by (rule unpack_concat) simp_all
  also have "\<dots> = Returns (r, None)"
    using bounds SetUint64_bounds [of "TargetBlockRate r"]
    by (subst (2) r) (simp add: Big_BigToHash_id)
  finally show ?thesis using p by blast
qed

theorem pack_unpack_roundtrip_witness:
  "fits_word (GasLimit scenario_config) \<and> fits_word (MinBaseFee scenario_config) \<and>
   fits_word (TargetGas scenario_config) \<and>
   fits_word (BaseFeeChangeDenominator scenario_config) \<and>
   fits_word (MinBlockGasCost scenario_config) \<and>
   fits_word (MaxBlockGasCost scenario_config) \<and>
   fits_word (BlockGasCostStep scenario_config) \<and>
   (\<exists>packed. PackFeeConfig scenario_externals scenario_config = Returns (packed, None) \<and>
     UnpackFeeConfigInput packed = Returns (scenario_config, None))"
  using pack_unpack_roundtrip [of scenario_config scenario_externals]
  by (simp add: fits_word_def scenario_config_def)

text \<open>
  C4, as the code has it. \<^verbatim>\<open>UnpackFeeConfigInput\<close> does no range check on the second
  word: every input of 256 bytes is decoded without an error, and the target block rate
  of the record is the second word modulo \<open>2 ^ 64\<close>.
\<close>

theorem UnpackFeeConfigInput_rate_truncated:
  assumes "length input = 8 * 32"
  shows "\<exists>feeConfig. UnpackFeeConfigInput input = Returns (feeConfig, None) \<and>
     uint (TargetBlockRate feeConfig) = SetBytes (returnPackedHash input 1) mod 2 ^ 64"
proof -
  have "length input = feeConfigInputLen"
    using assms by (simp add: feeConfigInputLen_def HashLength_def numFeeConfigField_def)
  then show ?thesis
    by (simp add: unpack_ok Uint64_def SetBytes_def uint_word_of_int take_bit_eq_mod
        unsigned_of_nat zmod_int)
qed

theorem UnpackFeeConfigInput_rate_truncated_witness:
  "length (replicate 256 (0xff :: byte)) = 8 * 32 \<and>
   (\<exists>feeConfig. UnpackFeeConfigInput (replicate 256 0xff) = Returns (feeConfig, None) \<and>
     uint (TargetBlockRate feeConfig) =
       SetBytes (returnPackedHash (replicate 256 0xff) 1) mod 2 ^ 64)"
  using UnpackFeeConfigInput_rate_truncated [of "replicate 256 0xff"] by simp

text \<open>
  C4, as the claim states it, fails: the input that differs from the input of the
  scenario only in its second word, \<open>2 ^ 64 + 2\<close> instead of \<open>2\<close>, is decoded without an
  error, to the record of the scenario.
\<close>

theorem UnpackFeeConfigInput_no_range_check:
  "length (concat [BigToHash 8000000, BigToHash (2 ^ 64 + 2), BigToHash 25000000000,
       BigToHash 15000000, BigToHash 36, BigToHash 0, BigToHash 1000000,
       BigToHash 200000]) = 8 * 32 \<and>
   SetBytes (returnPackedHash (concat [BigToHash 8000000, BigToHash (2 ^ 64 + 2),
       BigToHash 25000000000, BigToHash 15000000, BigToHash 36, BigToHash 0,
       BigToHash 1000000, BigToHash 200000]) 1) = 2 ^ 64 + 2 \<and>
   UnpackFeeConfigInput (concat [BigToHash 8000000, BigToHash (2 ^ 64 + 2),
       BigToHash 25000000000, BigToHash 15000000, BigToHash 36, BigToHash 0,
       BigToHash 1000000, BigToHash 200000]) = Returns (scenario_config, None)"
proof -
  let ?input = "concat [BigToHash 8000000, BigToHash (2 ^ 64 + 2), BigToHash 25000000000,
       BigToHash 15000000, BigToHash 36, BigToHash 0, BigToHash 1000000, BigToHash 200000]"
  have len: "length ?input = 8 * 32"
    by (simp add: HashLength_def)
  have "returnPackedHash ?input 1 = BigToHash (2 ^ 64 + 2)"
    by (rule returnPackedHash_concat) simp_all
  then have "SetBytes (returnPackedHash ?input 1) = Big (BigToHash (2 ^ 64 + 2))"
    by (simp only: Big_def)
  then have word: "SetBytes (returnPackedHash ?input 1) = 2 ^ 64 + 2"
    by (simp add: Big_BigToHash_id)
  have "UnpackFeeConfigInput ?input =
      Returns (\<lparr>GasLimit = Some (Big (BigToHash 8000000)),
        TargetBlockRate = Uint64 (Big (BigToHash (2 ^ 64 + 2))),
        MinBaseFee = Some (Big (BigToHash 25000000000)),
        TargetGas = Some (Big (BigToHash 15000000)),
        BaseFeeChangeDenominator = Some (Big (BigToHash 36)),
        MinBlockGasCost = Some (Big (BigToHash 0)),
        MaxBlockGasCost = Some (Big (BigToHash 1000000)),
        BlockGasCostStep = Some (Big (BigToHash 200000))\<rparr>, None)"
    unfolding Big_def by (rule unpack_concat) simp_all
  then have "UnpackFeeConfigInput ?input = Returns (scenario_config, None)"
    by (simp add: Big_BigToHash_id scenario_config_def Uint64_def)
  with len word show ?thesis by (intro conjI)
qed

text \<open>
  C5, as the code has it. \<^verbatim>\<open>setFeeConfig\<close> decodes its input before it looks the caller
  up: for a caller without a role, enough gas and \<open>readOnly\<close> unset, the call fails and
  leaves the state as it was; the error is the one of the allow list when the input has
  256 bytes, and the one of the length check otherwise.
\<close>

theorem setFeeConfig_no_role:
  assumes "getAllowListStatus x (GetStateDB accessibleState) (FeeConfigManagerAddress x) caller
      = AllowListNoRole"
    and "SetFeeConfigGasCost x \<le> suppliedGas"
  shows "setFeeConfig x accessibleState caller addr input suppliedGas False =
     Returns ((None, suppliedGas - SetFeeConfigGasCost x,
        Some (if length input = 8 * 32 then ErrCannotChangeFee caller
              else ErrInvalidInputLength (length input))),
       GetStateDB accessibleState)"
proof (cases "length input = feeConfigInputLen")
  case True
  with assms show ?thesis
    by (simp add: setFeeConfig_def deductGas_enough unpack_ok Let_def feeConfigInputLen_def
        HashLength_def numFeeConfigField_def)
next
  case False
  with assms show ?thesis
    by (simp add: setFeeConfig_def deductGas_enough unpack_bad feeConfigInputLen_def
        HashLength_def numFeeConfigField_def)
qed

theorem setFeeConfig_no_role_witness:
  "getAllowListStatus scenario_externals (GetStateDB (scenario_accessibleState (Some 42)))
      (FeeConfigManagerAddress scenario_externals) 0xC = AllowListNoRole \<and>
   SetFeeConfigGasCost scenario_externals \<le> 180000 \<and>
   setFeeConfig scenario_externals (scenario_accessibleState (Some 42)) 0xC 0xC
       scenario_input 180000 False =
     Returns ((None, 0, Some (ErrCannotChangeFee 0xC)), scenario_state)"
  using setFeeConfig_no_role [where x = scenario_externals and suppliedGas = 180000
      and accessibleState = "scenario_accessibleState (Some 42)" and caller = "0xC"
      and addr = "0xC" and input = scenario_input] length_scenario_input
  by (simp add: scenario_accessibleState_def feeConfigInputLen_def HashLength_def
      numFeeConfigField_def)

text \<open>
  C5, as the claim states it, fails: a caller without a role who sends an empty input
  with enough gas gets the error of the length check, not the one of the allow list.
\<close>

theorem setFeeConfig_decodes_before_permission:
  "getAllowListStatus scenario_externals (GetStateDB (scenario_accessibleState (Some 42)))
      (FeeConfigManagerAddress scenario_externals) 0xC = AllowListNoRole \<and>
   SetFeeConfigGasCost scenario_externals \<le> 180000 \<and>
   setFeeConfig scenario_externals (scenario_accessibleState (Some 42)) 0xC 0xC [] 180000 False =
     Returns ((None, 0, Some (ErrInvalidInputLength 0)), scenario_state) \<and>
   ErrInvalidInputLength 0 \<noteq> ErrCannotChangeFee 0xC"
  by (simp add: setFeeConfig_def deductGas_enough unpack_bad feeConfigInputLen_def
      HashLength_def numFeeConfigField_def scenario_accessibleState_def)

end
